theory Spec2Isabelle
  imports Main "HOL-Library.Sublist" "HOL-Library.Char_ord" "HOL-Library.List_Lexorder"
    "HOL-Library.Option_ord"
begin

section \<open>The user listing of the main data store\<close>

text \<open>
  This theory embeds \<^verbatim>\<open>get_users_paginate\<close> and \<^verbatim>\<open>check_database_before_upgrade\<close> of
  \<^verbatim>\<open>synapse/storage/databases/main/__init__.py\<close>. The Python builds two SQL statements and
  hands them to a database engine. The statements are kept as syntax trees (one constructor
  per SQL fragment the code emits, each \<^verbatim>\<open>?\<close> placeholder paired with the argument the code
  binds to it), and the engine is a small evaluator over three tables: a left outer join,
  three-valued conditions, \<^verbatim>\<open>LIKE\<close> patterns, \<^verbatim>\<open>ORDER BY\<close> and \<^verbatim>\<open>LIMIT ... OFFSET\<close>.
\<close>

subsection \<open>Values, errors and tables\<close>

datatype Direction = FORWARDS | BACKWARDS

text \<open>The two engines behind \<^verbatim>\<open>self.database_engine\<close>.\<close>

datatype engine = Sqlite3Engine | PostgresEngine

datatype error =
    ValueError string
  | KeyError string
  | DatabaseError string
  | Exception string

text \<open>What the database driver hands to Python for one column of one row.\<close>

datatype py_value = PyNone | PyInt int | PyBool bool | PyStr string

text \<open>
  The columns the two statements read. A column a condition compares carries the type the
  comparison needs (\<^verbatim>\<open>is_guest = 0\<close>, \<^verbatim>\<open>approved IS FALSE\<close>, \<^verbatim>\<open>creation_ts * 1000\<close>); a column
  that is only selected (\<^verbatim>\<open>admin\<close>, \<^verbatim>\<open>shadow_banned\<close>) is kept as the driver returns it.
  \<open>None\<close> is SQL's \<^verbatim>\<open>NULL\<close>.
\<close>

record users_row =
  u_name :: string
  u_user_type :: "string option"
  u_is_guest :: int
  u_admin :: py_value
  u_deactivated :: int
  u_shadow_banned :: py_value
  u_creation_ts :: "int option"
  u_approved :: "bool option"

record profiles_row =
  p_full_user_id :: "string option"
  p_displayname :: "string option"
  p_avatar_url :: "string option"

record erased_users_row =
  eu_user_id :: string

record database =
  users_table :: "users_row list"
  profiles_table :: "profiles_row list"
  erased_users_table :: "erased_users_row list"

text \<open>One row of \<^verbatim>\<open>users AS u LEFT JOIN profiles AS p LEFT JOIN erased_users AS eu\<close>.\<close>

type_synonym joined_row = "(users_row \<times> profiles_row option) \<times> erased_users_row option"

definition row_u :: "joined_row \<Rightarrow> users_row" where
  "row_u r = fst (fst r)"

definition row_p :: "joined_row \<Rightarrow> profiles_row option" where
  "row_p r = snd (fst r)"

definition row_eu :: "joined_row \<Rightarrow> erased_users_row option" where
  "row_eu r = snd r"

subsection \<open>Strings: \<^verbatim>\<open>str.lower\<close> and \<^verbatim>\<open>LIKE\<close>\<close>

text \<open>
  \<^verbatim>\<open>str.lower()\<close> and SQL's \<^verbatim>\<open>LOWER\<close> on the ASCII letters; every other character is left
  as it is.
\<close>

definition lower_char :: "char \<Rightarrow> char" where
  "lower_char c =
     (let n = (of_char c :: nat) in if 65 \<le> n \<and> n \<le> 90 then char_of (n + 32) else c)"

definition lower :: "string \<Rightarrow> string" where
  "lower s = map lower_char s"

text \<open>
  \<^verbatim>\<open>s LIKE pattern\<close> with no \<^verbatim>\<open>ESCAPE\<close>: \<^verbatim>\<open>%\<close> stands for any run of characters, \<^verbatim>\<open>_\<close> for
  any one character, every other character for itself. The first argument is the pattern.
  Characters are compared exactly: SQLite's \<^verbatim>\<open>LIKE\<close> ignores the case of ASCII letters, which
  makes no difference on the handles, stored in lower case (the code's comment), nor on a
  lowercased display name.
\<close>

fun like_match :: "string \<Rightarrow> string \<Rightarrow> bool" where
  "like_match [] s = (s = [])"
| "like_match (p # ps) [] = (p = CHR ''%'' \<and> like_match ps [])"
| "like_match (p # ps) (c # cs) =
     (if p = CHR ''%'' then like_match ps (c # cs) \<or> like_match (p # ps) cs
      else (p = CHR ''_'' \<or> p = c) \<and> like_match ps cs)"

subsection \<open>Conditions of the \<^verbatim>\<open>WHERE\<close> clause\<close>

datatype text_col = NAME | DISPLAYNAME | USER_TYPE

datatype int_col = IS_GUEST | DEACTIVATED

datatype bool_col = APPROVED

datatype sql_cond =
    Like text_col string
  | LowerLike text_col string
  | EqInt int_col int
  | IsFalse bool_col
  | IsNull text_col
  | IsNotNull text_col
  | InList text_col "string list"
  | SqlNot sql_cond
  | SqlOr sql_cond sql_cond
  | SqlAnd sql_cond sql_cond

fun text_value :: "text_col \<Rightarrow> joined_row \<Rightarrow> string option" where
  "text_value NAME r = Some (u_name (row_u r))"
| "text_value DISPLAYNAME r = (case row_p r of None \<Rightarrow> None | Some p \<Rightarrow> p_displayname p)"
| "text_value USER_TYPE r = u_user_type (row_u r)"

fun int_value :: "int_col \<Rightarrow> joined_row \<Rightarrow> int option" where
  "int_value IS_GUEST r = Some (u_is_guest (row_u r))"
| "int_value DEACTIVATED r = Some (u_deactivated (row_u r))"

fun bool_value :: "bool_col \<Rightarrow> joined_row \<Rightarrow> bool option" where
  "bool_value APPROVED r = u_approved (row_u r)"

text \<open>SQL's three-valued connectives; \<open>None\<close> is \<^verbatim>\<open>NULL\<close> (unknown).\<close>

fun sql_not :: "bool option \<Rightarrow> bool option" where
  "sql_not None = None"
| "sql_not (Some b) = Some (\<not> b)"

fun sql_or :: "bool option \<Rightarrow> bool option \<Rightarrow> bool option" where
  "sql_or (Some True) _ = Some True"
| "sql_or _ (Some True) = Some True"
| "sql_or (Some False) (Some False) = Some False"
| "sql_or _ _ = None"

fun sql_and :: "bool option \<Rightarrow> bool option \<Rightarrow> bool option" where
  "sql_and (Some False) _ = Some False"
| "sql_and _ (Some False) = Some False"
| "sql_and (Some True) (Some True) = Some True"
| "sql_and _ _ = None"

text \<open>
  The value of a condition at a row. A comparison with \<^verbatim>\<open>NULL\<close> is unknown; \<^verbatim>\<open>IS FALSE\<close>,
  \<^verbatim>\<open>IS NULL\<close> and \<^verbatim>\<open>IS NOT NULL\<close> are never unknown; membership in an empty list is false.
\<close>

fun eval_cond :: "sql_cond \<Rightarrow> joined_row \<Rightarrow> bool option" where
  "eval_cond (Like c pat) r = map_option (like_match pat) (text_value c r)"
| "eval_cond (LowerLike c pat) r = map_option (\<lambda>s. like_match pat (lower s)) (text_value c r)"
| "eval_cond (EqInt c n) r = map_option (\<lambda>v. v = n) (int_value c r)"
| "eval_cond (IsFalse c) r = Some (bool_value c r = Some False)"
| "eval_cond (IsNull c) r = Some (text_value c r = None)"
| "eval_cond (IsNotNull c) r = Some (text_value c r \<noteq> None)"
| "eval_cond (InList c vs) r =
     (if vs = [] then Some False else map_option (\<lambda>s. s \<in> set vs) (text_value c r))"
| "eval_cond (SqlNot a) r = sql_not (eval_cond a r)"
| "eval_cond (SqlOr a b) r = sql_or (eval_cond a r) (eval_cond b r)"
| "eval_cond (SqlAnd a b) r = sql_and (eval_cond a r) (eval_cond b r)"

text \<open>A row is kept by \<^verbatim>\<open>WHERE c\<close> when \<open>c\<close> is true there; with no clause every row is kept.\<close>

definition where_holds :: "sql_cond option \<Rightarrow> joined_row \<Rightarrow> bool" where
  "where_holds where_clause r =
     (case where_clause of None \<Rightarrow> True | Some c \<Rightarrow> eval_cond c r = Some True)"

subsection \<open>The query builder of \<^verbatim>\<open>get_users_paginate_txn\<close>\<close>

text \<open>Python's truth value of an optional string and of an optional list.\<close>

definition truthy :: "'a list option \<Rightarrow> bool" where
  "truthy x = (case x of None \<Rightarrow> False | Some v \<Rightarrow> v \<noteq> [])"

text \<open>
  Modelled from the spec: \<^verbatim>\<open>make_in_list_sql_clause\<close> of \<^verbatim>\<open>synapse.storage._base\<close> is not
  among the sources. The spec has it "build an IN-list exclusion over the literal tags":
  the clause it returns holds the column and the listed values (its arguments), and it is
  the caller that negates it.
\<close>

definition make_in_list_sql_clause :: "engine \<Rightarrow> text_col \<Rightarrow> string list \<Rightarrow> sql_cond" where
  "make_in_list_sql_clause database_engine column iterable = InList column iterable"

text \<open>
  The loop over \<^verbatim>\<open>not_user_types\<close>: the state is the pair
  \<^verbatim>\<open>(not_user_types_has_empty, not_user_types_without_empty)\<close>.
\<close>

fun split_not_user_types :: "string list \<Rightarrow> bool \<times> string list \<Rightarrow> bool \<times> string list" where
  "split_not_user_types [] acc = acc"
| "split_not_user_types (not_user_type # rest) (has_empty, without_empty) =
     (if not_user_type = []
      then split_not_user_types rest (True, without_empty)
      else split_not_user_types rest (has_empty, without_empty @ [not_user_type]))"

text \<open>
  The list \<^verbatim>\<open>filters\<close> as the code appends to it, one \<^verbatim>\<open>if\<close> after the other; the bound
  arguments of \<^verbatim>\<open>args\<close> stand inside the clauses.
\<close>

definition build_filters ::
  "engine \<Rightarrow> string option \<Rightarrow> string option \<Rightarrow> bool \<Rightarrow> bool \<Rightarrow> bool \<Rightarrow> string list option
    \<Rightarrow> sql_cond list" where
  "build_filters database_engine user_id name guests deactivated approved not_user_types =
     (let filters = [];
          filters =
            (if truthy name
             then filters @
               [SqlOr (Like NAME (''@%'' @ lower (the name) @ ''%:%''))
                      (LowerLike DISPLAYNAME (''%'' @ lower (the name) @ ''%''))]
             else if truthy user_id
             then filters @ [Like NAME (''%'' @ lower (the user_id) @ ''%'')]
             else filters);
          filters = (if \<not> guests then filters @ [EqInt IS_GUEST 0] else filters);
          filters = (if \<not> deactivated then filters @ [EqInt DEACTIVATED 0] else filters);
          filters = (if \<not> approved then filters @ [IsFalse APPROVED] else filters);
          filters =
            (if truthy not_user_types
             then
               (if the not_user_types = [[]]
                then filters @ [IsNotNull USER_TYPE]
                else
                  (let (not_user_types_has_empty, not_user_types_without_empty) =
                         split_not_user_types (the not_user_types) (False, []);
                       not_user_type_clause =
                         make_in_list_sql_clause database_engine USER_TYPE
                           not_user_types_without_empty
                   in if not_user_types_has_empty
                      then filters @ [SqlNot not_user_type_clause]
                      else filters @ [SqlOr (SqlNot not_user_type_clause) (IsNull USER_TYPE)]))
             else filters)
      in filters)"

text \<open>
  \<^verbatim>\<open>"WHERE " + " AND ".join(filters) if len(filters) > 0 else ""\<close>: SQL reads the joined
  clauses as a left-nested conjunction.
\<close>

definition where_clause :: "sql_cond list \<Rightarrow> sql_cond option" where
  "where_clause filters =
     (if length filters > 0 then Some (foldl SqlAnd (hd filters) (tl filters)) else None)"

subsection \<open>The engine: join, count, order, limit\<close>

definition left_join :: "'a list \<Rightarrow> 'b list \<Rightarrow> ('a \<Rightarrow> 'b \<Rightarrow> bool) \<Rightarrow> ('a \<times> 'b option) list" where
  "left_join ls rs on =
     concat (map (\<lambda>l. case filter (on l) rs of
                         [] \<Rightarrow> [(l, None)]
                       | m # ms \<Rightarrow> map (\<lambda>r. (l, Some r)) (m # ms)) ls)"

text \<open>
  \<^verbatim>\<open>sql_base\<close>: the rows of the join that the \<^verbatim>\<open>WHERE\<close> clause keeps. An \<^verbatim>\<open>ON\<close> equality
  with a \<^verbatim>\<open>NULL\<close> side matches nothing.
\<close>

definition sql_base :: "database \<Rightarrow> sql_cond option \<Rightarrow> joined_row list" where
  "sql_base db where_cl =
     filter (where_holds where_cl)
       (left_join
          (left_join (users_table db) (profiles_table db)
             (\<lambda>u p. p_full_user_id p = Some (u_name u)))
          (erased_users_table db)
          (\<lambda>up eu. eu_user_id eu = u_name (fst up)))"

text \<open>
  \<^verbatim>\<open>ORDER BY {order_by_column} {order}, u.name ASC\<close>. The engine's order on the primary
  column is the order of a key it reads off the row (\<open>key\<close>, which fixes the collation and
  the place of \<^verbatim>\<open>NULL\<close>); handles are compared as strings, character by character.
\<close>

definition row_le :: "(joined_row \<Rightarrow> 'k::linorder) \<Rightarrow> Direction \<Rightarrow> joined_row \<Rightarrow> joined_row \<Rightarrow> bool" where
  "row_le key direction a b =
     (if key a = key b then u_name (row_u a) \<le> u_name (row_u b)
      else if direction = BACKWARDS then key b < key a
      else key a < key b)"

fun insert_row :: "('a \<Rightarrow> 'a \<Rightarrow> bool) \<Rightarrow> 'a \<Rightarrow> 'a list \<Rightarrow> 'a list" where
  "insert_row le x [] = [x]"
| "insert_row le x (y # ys) = (if le x y then x # y # ys else y # insert_row le x ys)"

definition order_by_rows :: "('a \<Rightarrow> 'a \<Rightarrow> bool) \<Rightarrow> 'a list \<Rightarrow> 'a list" where
  "order_by_rows le rows = foldr (insert_row le) rows []"

text \<open>
  \<^verbatim>\<open>LIMIT ? OFFSET ?\<close> with the arguments \<^verbatim>\<open>[limit, start]\<close>. PostgreSQL rejects a negative
  bound; SQLite reads a negative limit as no limit and a negative offset as zero.
\<close>

definition limit_offset :: "engine \<Rightarrow> int \<Rightarrow> int \<Rightarrow> 'a list \<Rightarrow> error + 'a list" where
  "limit_offset database_engine limit start rows =
     (case database_engine of
        PostgresEngine \<Rightarrow>
          if limit < 0 then Inl (DatabaseError ''LIMIT must not be negative'')
          else if start < 0 then Inl (DatabaseError ''OFFSET must not be negative'')
          else Inr (take (nat limit) (drop (nat start) rows))
      | Sqlite3Engine \<Rightarrow>
          Inr (if limit < 0 then drop (nat start) rows
               else take (nat limit) (drop (nat start) rows)))"

text \<open>A boolean as the driver returns it: SQLite has no boolean type and returns 0 or 1.\<close>

definition db_bool :: "engine \<Rightarrow> bool \<Rightarrow> py_value" where
  "db_bool database_engine b =
     (case database_engine of
        Sqlite3Engine \<Rightarrow> PyInt (if b then 1 else 0)
      | PostgresEngine \<Rightarrow> PyBool b)"

definition opt_str :: "string option \<Rightarrow> py_value" where
  "opt_str s = (case s of None \<Rightarrow> PyNone | Some t \<Rightarrow> PyStr t)"

text \<open>
  The select list, as \<^verbatim>\<open>cursor_to_dict\<close> returns one row: a dictionary from the column
  names to the driver's values, kept as an association list in the order of the columns.
\<close>

type_synonym user_dict = "(string \<times> py_value) list"

definition select_columns :: "engine \<Rightarrow> joined_row \<Rightarrow> user_dict" where
  "select_columns database_engine r =
     [(''name'', PyStr (u_name (row_u r))),
      (''user_type'', opt_str (u_user_type (row_u r))),
      (''is_guest'', PyInt (u_is_guest (row_u r))),
      (''admin'', u_admin (row_u r)),
      (''deactivated'', PyInt (u_deactivated (row_u r))),
      (''shadow_banned'', u_shadow_banned (row_u r)),
      (''displayname'', opt_str (case row_p r of None \<Rightarrow> None | Some p \<Rightarrow> p_displayname p)),
      (''avatar_url'', opt_str (case row_p r of None \<Rightarrow> None | Some p \<Rightarrow> p_avatar_url p)),
      (''creation_ts'',
         (case u_creation_ts (row_u r) of None \<Rightarrow> PyNone | Some t \<Rightarrow> PyInt (t * 1000))),
      (''approved'',
         (case u_approved (row_u r) of None \<Rightarrow> PyNone | Some b \<Rightarrow> db_bool database_engine b)),
      (''erased'', db_bool database_engine (row_eu r \<noteq> None))]"

subsection \<open>Normalising the rows\<close>

text \<open>Python's \<^verbatim>\<open>bool(v)\<close>.\<close>

fun py_bool :: "py_value \<Rightarrow> bool" where
  "py_bool PyNone = False"
| "py_bool (PyInt n) = (n \<noteq> 0)"
| "py_bool (PyBool b) = b"
| "py_bool (PyStr s) = (s \<noteq> [])"

text \<open>\<^verbatim>\<open>user[column] = v\<close> for a key the dictionary has.\<close>

fun dict_set :: "string \<Rightarrow> py_value \<Rightarrow> user_dict \<Rightarrow> user_dict" where
  "dict_set k v [] = [(k, v)]"
| "dict_set k v ((k', v') # kvs) = (if k' = k then (k, v) # kvs else (k', v') # dict_set k v kvs)"

text \<open>
  The inner loop, \<^verbatim>\<open>for column in columns_to_boolify: user[column] = bool(user[column])\<close>;
  reading a key the dictionary lacks raises \<^verbatim>\<open>KeyError\<close>.
\<close>

fun boolify_columns :: "string list \<Rightarrow> user_dict \<Rightarrow> error + user_dict" where
  "boolify_columns [] user = Inr user"
| "boolify_columns (column # columns) user =
     (case map_of user column of
        None \<Rightarrow> Inl (KeyError column)
      | Some v \<Rightarrow> boolify_columns columns (dict_set column (PyBool (py_bool v)) user))"

text \<open>The outer loop, \<^verbatim>\<open>for user in users\<close>.\<close>

fun boolify_users :: "string list \<Rightarrow> user_dict list \<Rightarrow> error + user_dict list" where
  "boolify_users columns [] = Inr []"
| "boolify_users columns (user # users) =
     (case boolify_columns columns user of
        Inl e \<Rightarrow> Inl e
      | Inr user' \<Rightarrow>
          (case boolify_users columns users of
             Inl e \<Rightarrow> Inl e
           | Inr users' \<Rightarrow> Inr (user' # users')))"

definition columns_to_boolify :: "string list" where
  "columns_to_boolify = [''erased'']"

subsection \<open>\<^verbatim>\<open>get_users_paginate\<close>\<close>

text \<open>The statements handed to \<^verbatim>\<open>txn.execute\<close>, with their bound arguments.\<close>

datatype sql_query =
    CountQuery "sql_cond option"
  | SelectQuery "sql_cond option" string Direction int int

text \<open>
  The second statement, up to the select list: the rows of \<^verbatim>\<open>sql_base\<close>, ordered, cut to the
  window. \<open>column_key\<close> is the engine's reading of a column name in \<^verbatim>\<open>ORDER BY\<close>: the key it
  sorts by, or \<open>None\<close> when the join has no such column.
\<close>

definition run_select ::
  "(string \<Rightarrow> (joined_row \<Rightarrow> 'k::linorder) option) \<Rightarrow> engine \<Rightarrow> database \<Rightarrow> sql_cond option
    \<Rightarrow> string \<Rightarrow> Direction \<Rightarrow> int \<Rightarrow> int \<Rightarrow> error + joined_row list" where
  "run_select column_key database_engine db where_cl order_by_column direction limit start =
     (case column_key order_by_column of
        None \<Rightarrow> Inl (DatabaseError (''no such column: '' @ order_by_column))
      | Some key \<Rightarrow>
          limit_offset database_engine limit start
            (order_by_rows (row_le key direction) (sql_base db where_cl)))"

text \<open>
  \<^verbatim>\<open>get_users_paginate_txn\<close>. The enum \<^verbatim>\<open>UserSortOrder\<close> of
  \<^verbatim>\<open>synapse.storage.databases.main.stats\<close> is not among the sources: the list of its values
  is the parameter \<open>UserSortOrder\<close>, and \<^verbatim>\<open>UserSortOrder(order_by).value\<close> is \<open>order_by\<close>
  when the list has it and raises \<^verbatim>\<open>ValueError\<close> otherwise. The result comes with the
  statements executed on the transaction, in order.
\<close>

definition get_users_paginate_txn ::
  "string list \<Rightarrow> (string \<Rightarrow> (joined_row \<Rightarrow> 'k::linorder) option) \<Rightarrow> engine \<Rightarrow> database
    \<Rightarrow> int \<Rightarrow> int \<Rightarrow> string option \<Rightarrow> string option \<Rightarrow> bool \<Rightarrow> bool \<Rightarrow> string \<Rightarrow> Direction
    \<Rightarrow> bool \<Rightarrow> string list option
    \<Rightarrow> (error + (user_dict list \<times> nat)) \<times> sql_query list" where
  "get_users_paginate_txn UserSortOrder column_key database_engine db
     start limit user_id name guests deactivated order_by direction approved not_user_types =
     (if order_by \<notin> set UserSortOrder then (Inl (ValueError order_by), [])
      else
        (let order_by_column = order_by;
             filters =
               build_filters database_engine user_id name guests deactivated approved
                 not_user_types;
             where_cl = where_clause filters;
             count = length (sql_base db where_cl);
             executed =
               [CountQuery where_cl,
                SelectQuery where_cl order_by_column direction limit start]
         in case run_select column_key database_engine db where_cl order_by_column
                   direction limit start of
              Inl e \<Rightarrow> (Inl e, executed)
            | Inr page \<Rightarrow>
                (case boolify_users columns_to_boolify
                        (map (select_columns database_engine) page) of
                   Inl e \<Rightarrow> (Inl e, executed)
                 | Inr users \<Rightarrow> (Inr (users, count), executed))))"

text \<open>\<^verbatim>\<open>get_users_paginate\<close> runs the transaction function and returns its result.\<close>

definition get_users_paginate ::
  "string list \<Rightarrow> (string \<Rightarrow> (joined_row \<Rightarrow> 'k::linorder) option) \<Rightarrow> engine \<Rightarrow> database
    \<Rightarrow> int \<Rightarrow> int \<Rightarrow> string option \<Rightarrow> string option \<Rightarrow> bool \<Rightarrow> bool \<Rightarrow> string \<Rightarrow> Direction
    \<Rightarrow> bool \<Rightarrow> string list option
    \<Rightarrow> error + (user_dict list \<times> nat)" where
  "get_users_paginate UserSortOrder column_key database_engine db
     start limit user_id name guests deactivated order_by direction approved not_user_types =
     fst (get_users_paginate_txn UserSortOrder column_key database_engine db
            start limit user_id name guests deactivated order_by direction approved
            not_user_types)"

subsection \<open>\<^verbatim>\<open>check_database_before_upgrade\<close>\<close>

text \<open>
  \<^verbatim>\<open>SELECT name FROM users LIMIT 1\<close> returns the first row the engine meets, here the head
  of the table. \<^verbatim>\<open>get_domain_from_id\<close> of \<^verbatim>\<open>synapse.types\<close> is not among the sources and is
  a parameter: it returns the domain of a handle or raises.
\<close>

definition check_database_before_upgrade ::
  "(string \<Rightarrow> error + string) \<Rightarrow> database \<Rightarrow> engine \<Rightarrow> string \<Rightarrow> error + unit" where
  "check_database_before_upgrade get_domain_from_id cur database_engine server_name =
     (let rows = take 1 (map u_name (users_table cur))
      in case rows of
           [] \<Rightarrow> Inr ()
         | row # _ \<Rightarrow>
             (case get_domain_from_id row of
                Inl e \<Rightarrow> Inl e
              | Inr user_domain \<Rightarrow>
                  if user_domain = server_name then Inr ()
                  else Inl (Exception
                         (''Found users in database not native to '' @ server_name @ ''!'' @
                          [CHR 0x0A] @ ''You cannot change a synapse server_name after it'' @
                          [CHR 0x27] @ ''s been configured''))))"

subsection \<open>The three blocks of the builder\<close>




subsection \<open>A small store for the examples\<close>

text \<open>
  Modelled from the spec: the helper \<^verbatim>\<open>get_domain_from_id\<close> is not among the sources. The
  spec has the check "derive its domain suffix" from the handle: the text after the first
  colon. A handle with no colon has no domain.
\<close>

fun domain_suffix :: "string \<Rightarrow> error + string" where
  "domain_suffix [] = Inl (Exception ''Invalid ID'')"
| "domain_suffix (c # cs) = (if c = CHR '':'' then Inr cs else domain_suffix cs)"

text \<open>An enum of three sort orders, and an engine that sorts their columns as text,
  \<^verbatim>\<open>NULL\<close> first.\<close>

definition text_sort_orders :: "string list" where
  "text_sort_orders = [''name'', ''displayname'', ''user_type'']"

definition text_column_key :: "string \<Rightarrow> (joined_row \<Rightarrow> string option) option" where
  "text_column_key column =
     (if column = ''name'' then Some (text_value NAME)
      else if column = ''displayname'' then Some (text_value DISPLAYNAME)
      else if column = ''user_type'' then Some (text_value USER_TYPE)
      else None)"

definition mk_user :: "string \<Rightarrow> string option \<Rightarrow> int \<Rightarrow> int \<Rightarrow> int option \<Rightarrow> bool option \<Rightarrow> users_row" where
  "mk_user handle type_tag guest deact ts appr =
     \<lparr>u_name = handle, u_user_type = type_tag, u_is_guest = guest, u_admin = PyInt 0,
      u_deactivated = deact, u_shadow_banned = PyNone, u_creation_ts = ts,
      u_approved = appr\<rparr>"

definition mk_profile :: "string \<Rightarrow> string option \<Rightarrow> profiles_row" where
  "mk_profile handle display =
     \<lparr>p_full_user_id = Some handle, p_displayname = display, p_avatar_url = None\<rparr>"

definition example_db :: database where
  "example_db =
     \<lparr>users_table =
        [mk_user ''@carol:x'' None 0 1 (Some 3) None,
         mk_user ''@bob:x'' (Some ''bot'') 1 0 (Some 2) (Some False),
         mk_user ''@alice:x'' None 0 0 (Some 1) (Some True)],
      profiles_table = [mk_profile ''@alice:x'' (Some ''Alice A'')],
      erased_users_table = [\<lparr>eu_user_id = ''@bob:x''\<rparr>]\<rparr>"

definition empty_db :: database where
  "empty_db = \<lparr>users_table = [], profiles_table = [], erased_users_table = []\<rparr>"

definition example_org_db :: database where
  "example_org_db =
     \<lparr>users_table = [mk_user ''@alice:example.org'' None 0 0 (Some 1) None],
      profiles_table = [], erased_users_table = []\<rparr>"




definition out_row ::
  "string \<Rightarrow> py_value \<Rightarrow> int \<Rightarrow> int \<Rightarrow> py_value \<Rightarrow> py_value \<Rightarrow> py_value \<Rightarrow> py_value
    \<Rightarrow> user_dict" where
  "out_row handle type_tag guest deact display ts appr erased =
     [(''name'', PyStr handle), (''user_type'', type_tag), (''is_guest'', PyInt guest),
      (''admin'', PyInt 0), (''deactivated'', PyInt deact), (''shadow_banned'', PyNone),
      (''displayname'', display), (''avatar_url'', PyNone), (''creation_ts'', ts),
      (''approved'', appr), (''erased'', erased)]"

section \<open>Properties\<close>

subsection \<open>Three-valued conditions and the builder\<close>








subsection \<open>\<^verbatim>\<open>LIKE\<close> patterns\<close>














subsection \<open>Ordering\<close>

lemma set_insert_row: "set (insert_row le x xs) = insert x (set xs)"
  by (induction xs) auto

lemma length_insert_row: "length (insert_row le x xs) = Suc (length xs)"
  by (induction xs) auto

lemma set_order_by_rows: "set (order_by_rows le xs) = set xs"
  by (induction xs) (simp_all add: order_by_rows_def set_insert_row)

lemma length_order_by_rows: "length (order_by_rows le xs) = length xs"
  by (induction xs) (simp_all add: order_by_rows_def length_insert_row)



lemma row_le_antisym:
  "row_le key direction a b \<Longrightarrow> row_le key direction b a \<Longrightarrow>
     key a = key b \<and> u_name (row_u a) = u_name (row_u b)"
  by (auto simp: row_le_def split: if_splits)



subsection \<open>The window\<close>

lemma limit_offset_length:
  "limit_offset database_engine limit start xs = Inr ys \<Longrightarrow> 0 \<le> limit \<Longrightarrow>
     int (length ys) \<le> limit"
  by (auto simp: limit_offset_def split: engine.splits if_splits)


lemma limit_offset_set:
  "limit_offset database_engine limit start xs = Inr ys \<Longrightarrow> set ys \<subseteq> set xs"
  by (auto simp: limit_offset_def split: engine.splits if_splits dest: in_set_takeD in_set_dropD)

lemma limit_offset_all:
  "limit_offset database_engine (int (length xs)) 0 xs = Inr xs"
  by (simp add: limit_offset_def split: engine.splits)

subsection \<open>Normalising\<close>

lemma py_bool_db_bool: "py_bool (db_bool database_engine b) = b"
  by (cases database_engine) (simp_all add: db_bool_def)

lemma boolify_columns_select:
  "boolify_columns columns_to_boolify (select_columns database_engine r) =
     Inr (dict_set ''erased'' (PyBool (row_eu r \<noteq> None)) (select_columns database_engine r))"
  by (simp add: columns_to_boolify_def select_columns_def py_bool_db_bool)

lemma boolify_users_select:
  "boolify_users columns_to_boolify (map (select_columns database_engine) page) =
     Inr (map (\<lambda>r. dict_set ''erased'' (PyBool (row_eu r \<noteq> None))
                  (select_columns database_engine r)) page)"
  by (induction page) (simp_all add: boolify_columns_select)

lemma normalised_columns:
  fixes r :: joined_row and database_engine :: engine and v :: py_value
  defines "row \<equiv> dict_set ''erased'' v (select_columns database_engine r)"
  shows "map_of row ''name'' = Some (PyStr (u_name (row_u r)))"
    and "map_of row ''is_guest'' = Some (PyInt (u_is_guest (row_u r)))"
    and "map_of row ''admin'' = Some (u_admin (row_u r))"
    and "map_of row ''deactivated'' = Some (PyInt (u_deactivated (row_u r)))"
    and "map_of row ''shadow_banned'' = Some (u_shadow_banned (row_u r))"
    and "map_of row ''creation_ts'' =
           Some (case u_creation_ts (row_u r) of None \<Rightarrow> PyNone | Some t \<Rightarrow> PyInt (t * 1000))"
    and "map_of row ''approved'' =
           Some (case u_approved (row_u r) of None \<Rightarrow> PyNone | Some b \<Rightarrow> db_bool database_engine b)"
    and "map_of row ''erased'' = Some v"
  by (simp_all add: row_def select_columns_def)

subsection \<open>The join\<close>

lemma in_left_join:
  "(l, ro) \<in> set (left_join ls rs on) \<longleftrightarrow>
     l \<in> set ls \<and> (case ro of None \<Rightarrow> \<forall>r\<in>set rs. \<not> on l r | Some r \<Rightarrow> r \<in> set rs \<and> on l r)"
proof -
  have one: "\<And>l'. (l, ro) \<in> set (case filter (on l') rs of [] \<Rightarrow> [(l', None)]
                | m # ms \<Rightarrow> map (\<lambda>r. (l', Some r)) (m # ms)) \<longleftrightarrow>
      l = l' \<and> (case ro of None \<Rightarrow> \<forall>r\<in>set rs. \<not> on l r | Some r \<Rightarrow> r \<in> set rs \<and> on l r)"
  proof -
    fix l'
    show "(l, ro) \<in> set (case filter (on l') rs of [] \<Rightarrow> [(l', None)]
                | m # ms \<Rightarrow> map (\<lambda>r. (l', Some r)) (m # ms)) \<longleftrightarrow>
      l = l' \<and> (case ro of None \<Rightarrow> \<forall>r\<in>set rs. \<not> on l r | Some r \<Rightarrow> r \<in> set rs \<and> on l r)"
    proof (cases "filter (on l') rs")
      case Nil
      then have "\<forall>r\<in>set rs. \<not> on l' r" by (simp add: filter_empty_conv)
      with Nil show ?thesis by (cases ro) auto
    next
      case (Cons m ms)
      then have "set (m # ms) = {r \<in> set rs. on l' r}" by (metis set_filter)
      with Cons show ?thesis by (cases ro) auto
    qed
  qed
  show ?thesis
    unfolding left_join_def using one by auto
qed

lemma sql_base_row:
  assumes "r \<in> set (sql_base db where_cl)"
  shows "row_u r \<in> set (users_table db)"
    and "row_eu r \<noteq> None \<longleftrightarrow> (\<exists>eu\<in>set (erased_users_table db). eu_user_id eu = u_name (row_u r))"
    and "where_holds where_cl r"
proof -
  obtain u p eu where r: "r = ((u, p), eu)" by (metis surj_pair)
  from assms have w: "where_holds where_cl r"
    and j: "((u, p), eu) \<in> set (left_join
          (left_join (users_table db) (profiles_table db)
             (\<lambda>u p. p_full_user_id p = Some (u_name u)))
          (erased_users_table db)
          (\<lambda>up eu. eu_user_id eu = u_name (fst up)))"
    by (simp_all add: sql_base_def r)
  from j have up: "(u, p) \<in> set (left_join (users_table db) (profiles_table db)
             (\<lambda>u p. p_full_user_id p = Some (u_name u)))"
    and e: "eu \<noteq> None \<longleftrightarrow> (\<exists>x\<in>set (erased_users_table db). eu_user_id x = u_name u)"
    by (auto simp: in_left_join split: option.splits)
  from up show "row_u r \<in> set (users_table db)" by (simp add: in_left_join r row_u_def)
  from e show "row_eu r \<noteq> None \<longleftrightarrow> (\<exists>eu\<in>set (erased_users_table db). eu_user_id eu = u_name (row_u r))"
    by (simp add: r row_u_def row_eu_def)
  from w show "where_holds where_cl r" .
qed

subsection \<open>The result of a call\<close>

lemma get_users_paginate_Inr:
  "get_users_paginate UserSortOrder column_key database_engine db start limit
      user_id name guests deactivated order_by direction approved not_user_types = Inr (rows, total_count)
   \<longleftrightarrow>
   order_by \<in> set UserSortOrder
   \<and> (\<exists>page. run_select column_key database_engine db
         (where_clause (build_filters database_engine user_id name guests deactivated approved
            not_user_types)) order_by direction limit start = Inr page
        \<and> rows = map (\<lambda>r. dict_set ''erased'' (PyBool (row_eu r \<noteq> None))
                  (select_columns database_engine r)) page)
   \<and> total_count = length (sql_base db
         (where_clause (build_filters database_engine user_id name guests deactivated approved
            not_user_types)))"
  by (auto simp: get_users_paginate_def get_users_paginate_txn_def Let_def boolify_users_select
      split: sum.splits)

lemma run_select_Inr:
  "run_select column_key database_engine db where_cl order_by_column direction limit start = Inr page
   \<longleftrightarrow> (\<exists>key. column_key order_by_column = Some key
         \<and> limit_offset database_engine limit start
             (order_by_rows (row_le key direction) (sql_base db where_cl)) = Inr page)"
  by (auto simp: run_select_def split: option.splits)

subsection \<open>What the builder's clauses mean\<close>










subsection \<open>The rows behind a result\<close>


lemma rows_of_result:
  assumes "get_users_paginate UserSortOrder column_key database_engine db start limit
      user_id name guests deactivated order_by direction approved not_user_types
      = Inr (rows, total_count)"
    and "row \<in> set rows"
  shows "\<exists>r\<in>set (sql_base db (where_clause
            (build_filters database_engine user_id name guests deactivated approved
               not_user_types))).
           row = dict_set ''erased'' (PyBool (row_eu r \<noteq> None)) (select_columns database_engine r)"
proof -
  let ?w = "where_clause (build_filters database_engine user_id name guests deactivated
              approved not_user_types)"
  from assms(1) obtain page
    where p: "run_select column_key database_engine db ?w order_by direction limit start = Inr page"
    and r: "rows = map (\<lambda>r. dict_set ''erased'' (PyBool (row_eu r \<noteq> None))
                  (select_columns database_engine r)) page"
    unfolding get_users_paginate_Inr by blast
  from p obtain key where k: "column_key order_by = Some key"
    and l: "limit_offset database_engine limit start
              (order_by_rows (row_le key direction) (sql_base db ?w)) = Inr page"
    unfolding run_select_Inr by blast
  have "set page \<subseteq> set (sql_base db ?w)"
    using limit_offset_set [OF l] by (simp add: set_order_by_rows)
  with assms(2) r show ?thesis by auto
qed

section \<open>The claims\<close>

subsection \<open>The page and the count\<close>

text \<open>
  C1 (as amended). When a call returns \<open>(rows, total_count)\<close>: if \<open>limit\<close> is not negative,
  \<open>rows\<close> has at most \<open>limit\<close> entries; \<open>total_count\<close> is the number of rows of the join that
  the filters keep, whatever \<open>start\<close> and \<open>limit\<close> are; and the same call with \<open>start = 0\<close>
  and \<open>limit = total_count\<close> returns exactly \<open>total_count\<close> rows.
\<close>

theorem page_and_count:
  assumes "get_users_paginate UserSortOrder column_key database_engine db start limit
      user_id name guests deactivated order_by direction approved not_user_types
      = Inr (rows, total_count)"
  shows "(0 \<le> limit \<longrightarrow> int (length rows) \<le> limit)
    \<and> total_count = length (sql_base db (where_clause
          (build_filters database_engine user_id name guests deactivated approved
             not_user_types)))
    \<and> (\<exists>all_rows. get_users_paginate UserSortOrder column_key database_engine db
          0 (int total_count) user_id name guests deactivated order_by direction approved
          not_user_types = Inr (all_rows, total_count)
        \<and> length all_rows = total_count)"
proof -
  let ?w = "where_clause (build_filters database_engine user_id name guests deactivated
              approved not_user_types)"
  from assms obtain page where o: "order_by \<in> set UserSortOrder"
    and p: "run_select column_key database_engine db ?w order_by direction limit start = Inr page"
    and r: "rows = map (\<lambda>r. dict_set ''erased'' (PyBool (row_eu r \<noteq> None))
                  (select_columns database_engine r)) page"
    and t: "total_count = length (sql_base db ?w)"
    unfolding get_users_paginate_Inr by blast
  from p obtain key where k: "column_key order_by = Some key"
    and l: "limit_offset database_engine limit start
              (order_by_rows (row_le key direction) (sql_base db ?w)) = Inr page"
    unfolding run_select_Inr by blast
  have 1: "0 \<le> limit \<longrightarrow> int (length rows) \<le> limit"
    using limit_offset_length [OF l] r by simp
  let ?sorted = "order_by_rows (row_le key direction) (sql_base db ?w)"
  have len: "length ?sorted = total_count"
    by (simp add: t length_order_by_rows)
  have "limit_offset database_engine (int total_count) 0 ?sorted = Inr ?sorted"
    using limit_offset_all [of database_engine ?sorted] len by simp
  then have "run_select column_key database_engine db ?w order_by direction (int total_count) 0
               = Inr ?sorted"
    unfolding run_select_Inr using k by simp
  then have "get_users_paginate UserSortOrder column_key database_engine db
          0 (int total_count) user_id name guests deactivated order_by direction approved
          not_user_types
        = Inr (map (\<lambda>r. dict_set ''erased'' (PyBool (row_eu r \<noteq> None))
                  (select_columns database_engine r)) ?sorted, total_count)"
    unfolding get_users_paginate_Inr using o t by simp
  moreover have "length (map (\<lambda>r. dict_set ''erased'' (PyBool (row_eu r \<noteq> None))
                  (select_columns database_engine r)) ?sorted) = total_count"
    using len by simp
  ultimately have 3: "\<exists>all_rows. get_users_paginate UserSortOrder column_key database_engine db
          0 (int total_count) user_id name guests deactivated order_by direction approved
          not_user_types = Inr (all_rows, total_count)
        \<and> length all_rows = total_count"
    by blast
  from 1 t 3 show ?thesis by blast
qed

text \<open>
  The theorem at a store of three users, with \<open>start = 1\<close> and \<open>limit = 1\<close>: one row of
  three.
\<close>

theorem page_and_count_witness:
  "get_users_paginate text_sort_orders text_column_key PostgresEngine example_db 1 1
     None None True True ''name'' FORWARDS True None
   = Inr ([out_row ''@bob:x'' (PyStr ''bot'') 1 0 PyNone (PyInt 2000) (PyBool False)
             (PyBool True)], 3)
   \<and> int (length [out_row ''@bob:x'' (PyStr ''bot'') 1 0 PyNone (PyInt 2000) (PyBool False)
             (PyBool True)]) \<le> 1
   \<and> 3 = length (sql_base example_db (where_clause
          (build_filters PostgresEngine None None True True True None)))
   \<and> (\<exists>all_rows. get_users_paginate text_sort_orders text_column_key PostgresEngine example_db
          0 3 None None True True ''name'' FORWARDS True None = Inr (all_rows, 3)
        \<and> length all_rows = 3)"
proof -
  have h: "get_users_paginate text_sort_orders text_column_key PostgresEngine example_db 1 1
     None None True True ''name'' FORWARDS True None
   = Inr ([out_row ''@bob:x'' (PyStr ''bot'') 1 0 PyNone (PyInt 2000) (PyBool False)
             (PyBool True)], 3)"
    by code_simp
  show ?thesis
    using h page_and_count [OF h] by simp
qed

text \<open>
  C1 as stated fails for a negative limit: the code binds \<open>limit\<close> to \<^verbatim>\<open>LIMIT ?\<close> unchecked,
  and on SQLite \<^verbatim>\<open>LIMIT -1\<close> is no limit. With one user in the store and \<open>limit = -1\<close> the
  call returns one row, more than \<open>limit\<close>.
\<close>

theorem page_exceeds_negative_limit:
  "get_users_paginate text_sort_orders text_column_key Sqlite3Engine example_org_db 0 (- 1)
     None None True True ''name'' FORWARDS True None
   = Inr ([out_row ''@alice:example.org'' PyNone 0 0 PyNone (PyInt 1000) PyNone
             (PyBool False)], 1)
   \<and> \<not> int (length [out_row ''@alice:example.org'' PyNone 0 0 PyNone (PyInt 1000) PyNone
             (PyBool False)]) \<le> - 1"
  by code_simp

subsection \<open>The name clause\<close>




subsection \<open>The excluded user types\<close>



subsection \<open>The approval clause\<close>




subsection \<open>The order of the rows\<close>



subsection \<open>The normalised columns\<close>

text \<open>
  C6 (as amended). In every returned row, on either engine, \<^verbatim>\<open>erased\<close> is a Python
  boolean, true exactly when \<^verbatim>\<open>erased_users\<close> has a row for the handle. The other flags are
  returned as the driver delivers them: \<^verbatim>\<open>is_guest\<close> and \<^verbatim>\<open>deactivated\<close> as the stored
  integers, \<^verbatim>\<open>admin\<close> and \<^verbatim>\<open>shadow_banned\<close> as stored, \<^verbatim>\<open>approved\<close> as the engine's
  boolean (0 or 1 on SQLite).
\<close>

theorem erased_is_boolean:
  assumes "get_users_paginate UserSortOrder column_key database_engine db start limit
      user_id name guests deactivated order_by direction approved not_user_types
      = Inr (rows, total_count)"
  shows "\<forall>row\<in>set rows. \<exists>u\<in>set (users_table db).
      map_of row ''name'' = Some (PyStr (u_name u))
      \<and> map_of row ''erased'' =
          Some (PyBool (\<exists>eu\<in>set (erased_users_table db). eu_user_id eu = u_name u))
      \<and> map_of row ''is_guest'' = Some (PyInt (u_is_guest u))
      \<and> map_of row ''admin'' = Some (u_admin u)
      \<and> map_of row ''deactivated'' = Some (PyInt (u_deactivated u))
      \<and> map_of row ''shadow_banned'' = Some (u_shadow_banned u)
      \<and> map_of row ''approved'' =
          Some (case u_approved u of None \<Rightarrow> PyNone | Some b \<Rightarrow> db_bool database_engine b)"
proof
  fix row assume "row \<in> set rows"
  from rows_of_result [OF assms this] obtain r
    where m: "r \<in> set (sql_base db (where_clause
            (build_filters database_engine user_id name guests deactivated approved
               not_user_types)))"
    and row: "row = dict_set ''erased'' (PyBool (row_eu r \<noteq> None)) (select_columns database_engine r)"
    by blast
  have u: "row_u r \<in> set (users_table db)" using sql_base_row(1) [OF m] .
  have e: "row_eu r \<noteq> None \<longleftrightarrow>
      (\<exists>eu\<in>set (erased_users_table db). eu_user_id eu = u_name (row_u r))"
    using sql_base_row(2) [OF m] .
  have "map_of row ''name'' = Some (PyStr (u_name (row_u r)))
      \<and> map_of row ''erased'' =
          Some (PyBool (\<exists>eu\<in>set (erased_users_table db). eu_user_id eu = u_name (row_u r)))
      \<and> map_of row ''is_guest'' = Some (PyInt (u_is_guest (row_u r)))
      \<and> map_of row ''admin'' = Some (u_admin (row_u r))
      \<and> map_of row ''deactivated'' = Some (PyInt (u_deactivated (row_u r)))
      \<and> map_of row ''shadow_banned'' = Some (u_shadow_banned (row_u r))
      \<and> map_of row ''approved'' =
          Some (case u_approved (row_u r) of None \<Rightarrow> PyNone
                | Some b \<Rightarrow> db_bool database_engine b)"
    unfolding row normalised_columns e [symmetric] by simp
  with u show "\<exists>u\<in>set (users_table db).
      map_of row ''name'' = Some (PyStr (u_name u))
      \<and> map_of row ''erased'' =
          Some (PyBool (\<exists>eu\<in>set (erased_users_table db). eu_user_id eu = u_name u))
      \<and> map_of row ''is_guest'' = Some (PyInt (u_is_guest u))
      \<and> map_of row ''admin'' = Some (u_admin u)
      \<and> map_of row ''deactivated'' = Some (PyInt (u_deactivated u))
      \<and> map_of row ''shadow_banned'' = Some (u_shadow_banned u)
      \<and> map_of row ''approved'' =
          Some (case u_approved u of None \<Rightarrow> PyNone | Some b \<Rightarrow> db_bool database_engine b)"
    by blast
qed

text \<open>
  The theorem at the row of \<^verbatim>\<open>@bob:x\<close>, who is erased, on SQLite.
\<close>

theorem erased_is_boolean_witness:
  "get_users_paginate text_sort_orders text_column_key Sqlite3Engine example_db 0 10
     (Some ''bob'') None True True ''name'' FORWARDS True None
   = Inr ([out_row ''@bob:x'' (PyStr ''bot'') 1 0 PyNone (PyInt 2000) (PyInt 0)
             (PyBool True)], 1)
   \<and> (\<exists>u\<in>set (users_table example_db).
        Some (PyStr ''@bob:x'') = Some (PyStr (u_name u))
        \<and> Some (PyBool True) =
            Some (PyBool (\<exists>eu\<in>set (erased_users_table example_db). eu_user_id eu = u_name u)))"
proof -
  let ?row = "out_row ''@bob:x'' (PyStr ''bot'') 1 0 PyNone (PyInt 2000) (PyInt 0) (PyBool True)"
  have h: "get_users_paginate text_sort_orders text_column_key Sqlite3Engine example_db 0 10
     (Some ''bob'') None True True ''name'' FORWARDS True None = Inr ([?row], 1)"
    by code_simp
  have m: "?row \<in> set [?row]" by simp
  have n: "map_of ?row ''name'' = Some (PyStr ''@bob:x'')"
    and e: "map_of ?row ''erased'' = Some (PyBool True)"
    by (simp_all add: out_row_def)
  from erased_is_boolean [OF h, THEN bspec, OF m] obtain u
    where u1: "u \<in> set (users_table example_db)"
      and u2: "map_of ?row ''name'' = Some (PyStr (u_name u))"
      and u3: "map_of ?row ''erased'' =
          Some (PyBool (\<exists>eu\<in>set (erased_users_table example_db). eu_user_id eu = u_name u))"
    by blast
  have a: "Some (PyStr ''@bob:x'') = Some (PyStr (u_name u))"
    using n [symmetric] u2 by (rule trans)
  have b: "Some (PyBool True) =
      Some (PyBool (\<exists>eu\<in>set (erased_users_table example_db). eu_user_id eu = u_name u))"
    using e [symmetric] u3 by (rule trans)
  from u1 a b have "\<exists>u\<in>set (users_table example_db).
        Some (PyStr ''@bob:x'') = Some (PyStr (u_name u))
        \<and> Some (PyBool True) =
            Some (PyBool (\<exists>eu\<in>set (erased_users_table example_db). eu_user_id eu = u_name u))"
    by blast
  with h show ?thesis by blast
qed

text \<open>
  C6 as stated fails: only \<^verbatim>\<open>erased\<close> is in \<^verbatim>\<open>columns_to_boolify\<close>. On SQLite the row of
  \<^verbatim>\<open>@alice:x\<close> comes back with \<^verbatim>\<open>is_guest\<close> and \<^verbatim>\<open>deactivated\<close> the integer 0 and
  \<^verbatim>\<open>approved\<close> the integer 1.
\<close>

theorem other_flags_stay_integers:
  "get_users_paginate text_sort_orders text_column_key Sqlite3Engine example_db 0 10
     None (Some ''alice'') True True ''name'' FORWARDS True None
   = Inr ([out_row ''@alice:x'' PyNone 0 0 (PyStr ''Alice A'') (PyInt 1000) (PyInt 1)
             (PyBool False)], 1)
   \<and> map_of (out_row ''@alice:x'' PyNone 0 0 (PyStr ''Alice A'') (PyInt 1000) (PyInt 1)
             (PyBool False)) ''is_guest'' = Some (PyInt 0)
   \<and> map_of (out_row ''@alice:x'' PyNone 0 0 (PyStr ''Alice A'') (PyInt 1000) (PyInt 1)
             (PyBool False)) ''deactivated'' = Some (PyInt 0)
   \<and> map_of (out_row ''@alice:x'' PyNone 0 0 (PyStr ''Alice A'') (PyInt 1000) (PyInt 1)
             (PyBool False)) ''approved'' = Some (PyInt 1)"
  by code_simp

subsection \<open>The name takes precedence\<close>



subsection \<open>The creation timestamp\<close>



subsection \<open>The sort order is checked first\<close>

text \<open>
  C9. An \<^verbatim>\<open>order_by\<close> that is not a value of \<^verbatim>\<open>UserSortOrder\<close> makes the call raise
  \<^verbatim>\<open>ValueError\<close>, whatever the filters are, and no statement has been executed on the
  transaction: the list of executed statements is empty.
\<close>

theorem invalid_order_by_fails_fast:
  assumes "order_by \<notin> set UserSortOrder"
  shows "get_users_paginate_txn UserSortOrder column_key database_engine db start limit
           user_id name guests deactivated order_by direction approved not_user_types
         = (Inl (ValueError order_by), [])
       \<and> get_users_paginate UserSortOrder column_key database_engine db start limit
           user_id name guests deactivated order_by direction approved not_user_types
         = Inl (ValueError order_by)"
  using assms by (simp add: get_users_paginate_txn_def get_users_paginate_def)

theorem invalid_order_by_fails_fast_witness:
  "''nme'' \<notin> set text_sort_orders
   \<and> get_users_paginate_txn text_sort_orders text_column_key PostgresEngine example_db 0 10
        None (Some ''alice'') False False ''nme'' FORWARDS True (Some [''bot''])
      = (Inl (ValueError ''nme''), [])"
proof -
  have h: "''nme'' \<notin> set text_sort_orders" by (simp add: text_sort_orders_def)
  show ?thesis
    using h invalid_order_by_fails_fast [OF h, of text_column_key PostgresEngine example_db 0 10
        None "Some ''alice''" False False FORWARDS True "Some [''bot'']"]
    by simp
qed

subsection \<open>The check before an upgrade\<close>

text \<open>
  C8. On an empty \<^verbatim>\<open>users\<close> table \<^verbatim>\<open>check_database_before_upgrade\<close> returns without an
  error, for any configured server name. On a table that is not empty, when the inspected
  handle (the first row) has a domain, the check raises exactly when that domain differs
  from the configured server name, it returns without an error when they are equal, and
  the message of the error it raises holds the configured server name.
\<close>

theorem check_database_before_upgrade_raises_iff:
  "(users_table cur = [] \<longrightarrow>
      check_database_before_upgrade get_domain_from_id cur database_engine server_name = Inr ())
   \<and> (\<forall>u rest user_domain.
        users_table cur = u # rest \<and> get_domain_from_id (u_name u) = Inr user_domain \<longrightarrow>
          ((\<exists>e. check_database_before_upgrade get_domain_from_id cur database_engine server_name
                 = Inl e) \<longleftrightarrow> user_domain \<noteq> server_name)
        \<and> (user_domain = server_name \<longrightarrow>
             check_database_before_upgrade get_domain_from_id cur database_engine server_name
               = Inr ())
        \<and> (user_domain \<noteq> server_name \<longrightarrow>
             check_database_before_upgrade get_domain_from_id cur database_engine server_name
               = Inl (Exception
                   (''Found users in database not native to '' @ server_name @ ''!'' @
                    [CHR 0x0A] @ ''You cannot change a synapse server_name after it'' @
                    [CHR 0x27] @ ''s been configured''))))"
  by (auto simp: check_database_before_upgrade_def)

theorem check_database_before_upgrade_raises_iff_witness:
  "check_database_before_upgrade domain_suffix empty_db Sqlite3Engine ''other.org'' = Inr ()
   \<and> (\<exists>e. check_database_before_upgrade domain_suffix example_org_db PostgresEngine
          ''other.org'' = Inl e)
   \<and> check_database_before_upgrade domain_suffix example_org_db PostgresEngine
          ''example.org'' = Inr ()"
proof -
  have h0: "users_table empty_db = []" by (simp add: empty_db_def)
  have h1: "users_table example_org_db = mk_user ''@alice:example.org'' None 0 0 (Some 1) None # []
      \<and> domain_suffix (u_name (mk_user ''@alice:example.org'' None 0 0 (Some 1) None))
          = Inr ''example.org''"
    by (simp add: example_org_db_def mk_user_def)
  have d: "''example.org'' \<noteq> ''other.org''" by simp
  have "check_database_before_upgrade domain_suffix empty_db Sqlite3Engine ''other.org'' = Inr ()"
    using h0 check_database_before_upgrade_raises_iff
      [of empty_db domain_suffix Sqlite3Engine "''other.org''"] by blast
  moreover have "\<exists>e. check_database_before_upgrade domain_suffix example_org_db PostgresEngine
          ''other.org'' = Inl e"
    using h1 d check_database_before_upgrade_raises_iff
      [of example_org_db domain_suffix PostgresEngine "''other.org''"] by blast
  moreover have "check_database_before_upgrade domain_suffix example_org_db PostgresEngine
          ''example.org'' = Inr ()"
    using h1 check_database_before_upgrade_raises_iff
      [of example_org_db domain_suffix PostgresEngine "''example.org''"] by blast
  ultimately show ?thesis by blast
qed

end
